theory Spec2Isabelle
  imports Main
begin

section \<open>Go values used by the review service\<close>

text \<open>
  The struct \<open>Review\<close> of \<open>main.go\<close>. Go's \<open>int\<close> is a 64-bit signed integer on
  the platforms the service is built for; values are modelled as \<open>int\<close> and the one
  arithmetic operation of the program, \<open>idCounter++\<close>, wraps around explicitly
  (\<open>go_incr\<close>). A Go \<open>string\<close> is a byte sequence, here a \<open>string\<close>.
\<close>

record Review =
  ID :: int
  Name :: string
  Review :: string
  Rating :: int

definition max_int64 :: int where
  "max_int64 = 9223372036854775807"

definition go_incr :: "int \<Rightarrow> int" where
  \<comment> \<open>\<open>x++\<close> on a 64-bit signed integer: overflow wraps around to the smallest value\<close>
  "go_incr x = (if x + 1 > max_int64 then x + 1 - 18446744073709551616 else x + 1)"

text \<open>
  A Go slice is either \<open>nil\<close> or a (possibly empty) sequence; \<open>append\<close> to a nil slice
  allocates. The difference shows in the JSON encoding.
\<close>

datatype 'a slice = NilSlice | Slice "'a list"

fun append_slice :: "'a slice \<Rightarrow> 'a \<Rightarrow> 'a slice" where
  "append_slice NilSlice x = Slice [x]"
| "append_slice (Slice xs) x = Slice (xs @ [x])"

fun elems :: "'a slice \<Rightarrow> 'a list" where
  "elems NilSlice = []"
| "elems (Slice xs) = xs"

text \<open>
  Go \<open>error\<close> values of the program: an error returned by the database driver, and an
  error built by \<open>fmt.Errorf\<close>. They have different dynamic types; \<open>Error_text\<close> is the
  method \<open>Error()\<close>.
\<close>

datatype error = DriverError string | Errorf string

fun Error_text :: "error \<Rightarrow> string" where
  "Error_text (DriverError m) = m"
| "Error_text (Errorf m) = m"

text \<open>The verb \<open>%d\<close> of \<open>fmt\<close>: decimal digits, with a minus sign for negative values.\<close>

fun show_nat :: "nat \<Rightarrow> string" where
  "show_nat n = (if n < 10 then [''0123456789'' ! n]
                 else show_nat (n div 10) @ [''0123456789'' ! (n mod 10)])"

definition show_int :: "int \<Rightarrow> string" where
  "show_int i = (if i < 0 then CHR ''-'' # show_nat (nat (- i)) else show_nat (nat i))"

section \<open>JSON values and HTTP responses\<close>

datatype json =
    JNull
  | JBool bool
  | JInt int
  | JString string
  | JArray "json list"
  | JObject "(string \<times> json) list"

text \<open>
  \<open>encoding/json\<close>: a struct encodes as an object with its tagged fields in declaration
  order; a slice encodes as an array, except that a nil slice encodes as \<open>null\<close>; a map
  encodes as an object with its keys sorted.
\<close>

definition json_of_Review :: "Review \<Rightarrow> json" where
  "json_of_Review r = JObject [(''id'', JInt (ID r)), (''name'', JString (Name r)),
     (''review'', JString (Review r)), (''rating'', JInt (Rating r))]"

fun json_of_Reviews :: "Review slice \<Rightarrow> json" where
  "json_of_Reviews NilSlice = JNull"
| "json_of_Reviews (Slice rs) = JArray (map json_of_Review rs)"

text \<open>
  A response is its status code and its body: a line of plain text (\<open>http.Error\<close>) or an
  encoded JSON value. A handler that writes a body without calling \<open>WriteHeader\<close> answers
  with status 200.
\<close>

datatype body = Text string | Json json

record response =
  status :: nat
  body :: body

definition http_Error :: "string \<Rightarrow> nat \<Rightarrow> response" where
  "http_Error msg code = \<lparr>status = code, body = Text msg\<rparr>"

definition respondWithJSON :: "nat \<Rightarrow> json \<Rightarrow> response" where
  "respondWithJSON code payload = \<lparr>status = code, body = Json payload\<rparr>"

datatype http_method = GET | POST | DELETE | OPTIONS | OtherMethod

section \<open>The database\<close>

text \<open>
  The table \<open>reviews\<close> of the SQLite file, created by \<open>initializeDatabase\<close> with
  \<open>id INTEGER PRIMARY KEY AUTOINCREMENT\<close>. The state of the file is the rows of the
  table, and the engine's own counter for the table (the entry of \<open>sqlite_sequence\<close>):
  the largest rowid the table has ever held. \<open>executed\<close> records every statement the
  program has sent over the connection, in order.

  A statement can fail in the driver (the file is locked, the disk is full, the
  connection is lost): such a failure is an input of the model, a \<open>fault\<close> carrying the
  driver's message. A failed statement changes neither rows nor counter.

  The engine is not part of the repository: the source holds the text of the five
  statements only. What the statements do is written here from SQLite's documentation
  of \<open>INTEGER PRIMARY KEY AUTOINCREMENT\<close> (a row inserted without an id gets one more
  than the largest rowid the table has ever held, and the insert fails once the largest
  possible rowid has been used), and is an assumption of every result that depends on
  the id of a stored row. The rows of the table hold values of the columns' types (no
  \<open>NULL\<close>), so that \<open>rows.Scan\<close> does not fail.
\<close>

datatype statement =
    CreateTable
  | SelectMaxId
  | InsertReview string string int
  | DeleteById int
  | SelectAll

record database =
  table :: "Review list"
  sequence :: int
  executed :: "statement list"

type_synonym fault = "string option"

definition empty_database :: database where
  "empty_database = \<lparr>table = [], sequence = 0, executed = []\<rparr>"

definition sent :: "statement \<Rightarrow> database \<Rightarrow> database" where
  "sent q d = d\<lparr>executed := executed d @ [q]\<rparr>"

fun max_id :: "Review list \<Rightarrow> int option" where
  \<comment> \<open>\<open>MAX(id)\<close>: \<open>NULL\<close> when there are no rows\<close>
  "max_id [] = None"
| "max_id (r # rs) = Some (case max_id rs of None \<Rightarrow> ID r | Some m \<Rightarrow> max (ID r) m)"

definition high_water :: "database \<Rightarrow> int" where
  \<comment> \<open>the largest rowid the table holds or has ever held\<close>
  "high_water d = max (case max_id (table d) of None \<Rightarrow> 0 | Some m \<Rightarrow> m) (sequence d)"

definition next_rowid :: "database \<Rightarrow> int option" where
  \<comment> \<open>the rowid \<open>AUTOINCREMENT\<close> gives a row inserted without an id: one more than the
      largest ever used, and none once the largest possible rowid has been used\<close>
  "next_rowid d = (if high_water d \<ge> max_int64 then None else Some (high_water d + 1))"

definition exec_insert :: "fault \<Rightarrow> string \<Rightarrow> string \<Rightarrow> int \<Rightarrow> database \<Rightarrow> error option \<times> database" where
  \<comment> \<open>\<open>INSERT INTO reviews (name, review, rating) VALUES (?, ?, ?)\<close>\<close>
  "exec_insert flt n r k d =
     (let d' = sent (InsertReview n r k) d in
      case flt of
        Some msg \<Rightarrow> (Some (DriverError msg), d')
      | None \<Rightarrow>
          (case next_rowid d of
             None \<Rightarrow> (Some (DriverError ''database or disk is full''), d')
           | Some i \<Rightarrow>
               (None, d'\<lparr>table := table d @ [\<lparr>ID = i, Name = n, Review = r, Rating = k\<rparr>],
                          sequence := i\<rparr>)))"

definition exec_delete :: "fault \<Rightarrow> int \<Rightarrow> database \<Rightarrow> (error + nat) \<times> database" where
  \<comment> \<open>\<open>DELETE FROM reviews WHERE id = ?\<close>; the result is the number of rows affected\<close>
  "exec_delete flt i d =
     (let d' = sent (DeleteById i) d in
      case flt of
        Some msg \<Rightarrow> (Inl (DriverError msg), d')
      | None \<Rightarrow>
          (Inr (length (filter (\<lambda>r. ID r = i) (table d))),
           d'\<lparr>table := filter (\<lambda>r. ID r \<noteq> i) (table d)\<rparr>))"

definition query_max :: "fault \<Rightarrow> database \<Rightarrow> (error + int option) \<times> database" where
  \<comment> \<open>\<open>SELECT MAX(id) FROM reviews\<close>\<close>
  "query_max flt d =
     (let d' = sent SelectMaxId d in
      case flt of
        Some msg \<Rightarrow> (Inl (DriverError msg), d')
      | None \<Rightarrow> (Inr (max_id (table d)), d'))"

definition query_all :: "fault \<Rightarrow> database \<Rightarrow> (error + Review list) \<times> database" where
  \<comment> \<open>\<open>SELECT id, name, review, rating FROM reviews\<close>\<close>
  "query_all flt d =
     (let d' = sent SelectAll d in
      case flt of
        Some msg \<Rightarrow> (Inl (DriverError msg), d')
      | None \<Rightarrow> (Inr (table d), d'))"

section \<open>The program\<close>

text \<open>
  The globals of \<open>main.go\<close>: the database handle \<open>db\<close> and \<open>idCounter\<close>. Every handler
  holds the one global mutex from before its first statement until it returns, so the
  handlers of concurrent requests run one after the other: a handler is a function from
  the state before it to its response and the state after it.
\<close>

record server =
  db :: database
  idCounter :: int

definition initializeDatabase :: "fault \<Rightarrow> database \<Rightarrow> error option \<times> database" where
  \<comment> \<open>\<open>CREATE TABLE IF NOT EXISTS reviews (...)\<close>: an existing table is left as it is\<close>
  "initializeDatabase flt d =
     (let d' = sent CreateTable d in
      case flt of Some msg \<Rightarrow> (Some (DriverError msg), d') | None \<Rightarrow> (None, d'))"

definition loadIDCounter :: "fault \<Rightarrow> server \<Rightarrow> error + server" where
  \<comment> \<open>\<open>Inl\<close> is \<open>log.Fatalf\<close>: the process ends\<close>
  "loadIDCounter flt s =
     (case query_max flt (db s) of
        (Inl err, d') \<Rightarrow> Inl err
      | (Inr maxID, d') \<Rightarrow>
          (case maxID of
             None \<Rightarrow> Inr (s\<lparr>db := d'\<rparr>)
           | Some m \<Rightarrow> Inr (s\<lparr>db := d', idCounter := m\<rparr>)))"

definition main_start :: "fault \<Rightarrow> fault \<Rightarrow> database \<Rightarrow> error + server" where
  \<comment> \<open>\<open>main\<close> up to the point where it starts to listen: a new process, whose
      \<open>idCounter\<close> is initialised to 0, on the database file it finds\<close>
  "main_start flt_schema flt_max d =
     (case initializeDatabase flt_schema d of
        (Some err, d') \<Rightarrow> Inl err
      | (None, d') \<Rightarrow> loadIDCounter flt_max \<lparr>db = d', idCounter = 0\<rparr>)"

definition saveReview :: "fault \<Rightarrow> Review \<Rightarrow> database \<Rightarrow> error option \<times> database" where
  "saveReview flt review d = exec_insert flt (Name review) (Review review) (Rating review) d"

definition deleteReview :: "fault \<Rightarrow> fault \<Rightarrow> int \<Rightarrow> database \<Rightarrow> error option \<times> database" where
  \<comment> \<open>the second fault is an error of \<open>result.RowsAffected()\<close>\<close>
  "deleteReview flt flt_rows i d =
     (case exec_delete flt i d of
        (Inl err, d') \<Rightarrow> (Some err, d')
      | (Inr rowsAffected, d') \<Rightarrow>
          (case flt_rows of
             Some msg \<Rightarrow> (Some (DriverError msg), d')
           | None \<Rightarrow>
               if rowsAffected = 0
               then (Some (Errorf (''no review found with id '' @ show_int i)), d')
               else (None, d')))"

definition loadReviews :: "fault \<Rightarrow> database \<Rightarrow> (error + Review slice) \<times> database" where
  \<comment> \<open>\<open>var reviews []Review\<close> is nil; the loop appends one review per row\<close>
  "loadReviews flt d =
     (case query_all flt d of
        (Inl err, d') \<Rightarrow> (Inl err, d')
      | (Inr rows, d') \<Rightarrow> (Inr (fold (\<lambda>row reviews. append_slice reviews row) rows NilSlice), d'))"

text \<open>
  The handlers take the outcome of \<open>json.NewDecoder(r.Body).Decode\<close>: \<open>None\<close> when it
  returns an error, the decoded value otherwise (a field the body leaves out is zero).
\<close>

definition handlePostReview :: "Review option \<Rightarrow> fault \<Rightarrow> server \<Rightarrow> response \<times> server" where
  "handlePostReview decoded flt s =
     (case decoded of
        None \<Rightarrow> (http_Error ''Invalid request payload'' 400, s)
      | Some newReview \<Rightarrow>
          if Rating newReview < 1 \<or> Rating newReview > 5
          then (http_Error ''Invalid rating value. Must be between 1 and 5.'' 400, s)
          else
            (let c = go_incr (idCounter s);
                 newReview' = newReview\<lparr>ID := c\<rparr>
             in case saveReview flt newReview' (db s) of
                  (Some err, d') \<Rightarrow>
                    (http_Error ''Failed to save review'' 500, \<lparr>db = d', idCounter = c\<rparr>)
                | (None, d') \<Rightarrow>
                    (\<lparr>status = 200,
                      body = Json (JObject [(''id'', JInt (ID newReview')), (''success'', JBool True)])\<rparr>,
                     \<lparr>db = d', idCounter = c\<rparr>)))"

definition handleGetReviews :: "fault \<Rightarrow> server \<Rightarrow> response \<times> server" where
  "handleGetReviews flt s =
     (case loadReviews flt (db s) of
        (Inl err, d') \<Rightarrow> (http_Error ''Failed to load reviews'' 500, s\<lparr>db := d'\<rparr>)
      | (Inr reviews, d') \<Rightarrow> (\<lparr>status = 200, body = Json (json_of_Reviews reviews)\<rparr>, s\<lparr>db := d'\<rparr>))"

definition reviewsHandler :: "http_method \<Rightarrow> Review option \<Rightarrow> fault \<Rightarrow> server \<Rightarrow> response \<times> server" where
  "reviewsHandler m decoded flt s =
     (case m of
        POST \<Rightarrow> handlePostReview decoded flt s
      | GET \<Rightarrow> handleGetReviews flt s
      | _ \<Rightarrow> (http_Error ''Method not allowed'' 405, s))"

definition deleteReviewHandler :: "http_method \<Rightarrow> int option \<Rightarrow> fault \<Rightarrow> fault \<Rightarrow> server \<Rightarrow> response \<times> server" where
  "deleteReviewHandler m decoded flt flt_rows s =
     (if m \<noteq> DELETE
      then (respondWithJSON 405 (JObject [(''error'', JString ''Method not allowed'')]), s)
      else
        (case decoded of
           None \<Rightarrow> (respondWithJSON 400 (JObject [(''error'', JString ''Invalid request payload'')]), s)
         | Some i \<Rightarrow>
             (case deleteReview flt flt_rows i (db s) of
                (Some err, d') \<Rightarrow>
                  (respondWithJSON 500
                     (JObject [(''error'', JString (''Failed to delete review: '' @ Error_text err))]),
                   s\<lparr>db := d'\<rparr>)
              | (None, d') \<Rightarrow>
                  (respondWithJSON 200 (JObject [(''success'', JBool True)]), s\<lparr>db := d'\<rparr>))))"

definition withCORS :: "(server \<Rightarrow> response \<times> server) \<Rightarrow> http_method \<Rightarrow> server \<Rightarrow> response \<times> server" where
  \<comment> \<open>a preflight request is answered without calling the handler\<close>
  "withCORS next m s = (if m = OPTIONS then (\<lparr>status = 200, body = Text []\<rparr>, s) else next s)"

section \<open>Requests, process lifetimes\<close>

datatype request =
    ReviewsReq http_method "Review option" fault
  | DeleteReviewReq http_method "int option" fault fault

fun serve :: "request \<Rightarrow> server \<Rightarrow> response \<times> server" where
  "serve (ReviewsReq m decoded flt) s = withCORS (reviewsHandler m decoded flt) m s"
| "serve (DeleteReviewReq m decoded flt flt_rows) s =
     withCORS (deleteReviewHandler m decoded flt flt_rows) m s"

text \<open>The requests one process serves, in the order in which their handlers run.\<close>

fun serve_all :: "request list \<Rightarrow> server \<Rightarrow> response list \<times> server" where
  "serve_all [] s = ([], s)"
| "serve_all (q # qs) s =
     (case serve q s of (r, s') \<Rightarrow> (case serve_all qs s' of (rs, s'') \<Rightarrow> (r # rs, s'')))"

text \<open>
  A restart ends the process and starts a new one on the same database file; here the
  start succeeds.
\<close>

definition restart :: "server \<Rightarrow> server" where
  "restart s = (case main_start None None (db s) of Inl err \<Rightarrow> s | Inr s' \<Rightarrow> s')"

datatype event = Request request | Restart

fun run :: "event list \<Rightarrow> server \<Rightarrow> response list \<times> server" where
  "run [] s = ([], s)"
| "run (Request q # es) s =
     (case serve q s of (r, s') \<Rightarrow> (case run es s' of (rs, s'') \<Rightarrow> (r # rs, s'')))"
| "run (Restart # es) s = run es (restart s)"

text \<open>What a client reads from a response: the id a create request answers with.\<close>

fun json_field :: "string \<Rightarrow> json \<Rightarrow> json option" where
  "json_field k (JObject kvs) = map_of kvs k"
| "json_field k v = None"

definition assigned_id :: "response \<Rightarrow> int option" where
  "assigned_id r =
     (case body r of
        Text t \<Rightarrow> None
      | Json v \<Rightarrow>
          (if status r = 200
           then (case json_field ''id'' v of Some (JInt n) \<Rightarrow> Some n | _ \<Rightarrow> None)
           else None))"

definition assigned_ids :: "response list \<Rightarrow> int list" where
  "assigned_ids rs = concat (map (\<lambda>r. case assigned_id r of None \<Rightarrow> [] | Some n \<Rightarrow> [n]) rs)"

definition postReview :: "string \<Rightarrow> string \<Rightarrow> int \<Rightarrow> request" where
  \<comment> \<open>\<open>POST /reviews\<close> with the body \<open>{"name": n, "review": r, "rating": k}\<close>, no fault\<close>
  "postReview n r k = ReviewsReq POST (Some \<lparr>ID = 0, Name = n, Review = r, Rating = k\<rparr>) None"

definition getReviews :: request where
  "getReviews = ReviewsReq GET None None"

definition deleteById :: "int \<Rightarrow> request" where
  \<comment> \<open>\<open>DELETE /delete-review\<close> with the body \<open>{"id": i}\<close>, no fault\<close>
  "deleteById i = DeleteReviewReq DELETE (Some i) None None"

definition fresh_server :: server where
  \<comment> \<open>the first start, on a new database file\<close>
  "fresh_server = restart \<lparr>db = empty_database, idCounter = 0\<rparr>"

definition postReview_failing :: "string \<Rightarrow> string \<Rightarrow> int \<Rightarrow> request" where
  \<comment> \<open>the same request, served while the driver refuses the insert\<close>
  "postReview_failing n r k =
     ReviewsReq POST (Some \<lparr>ID = 0, Name = n, Review = r, Rating = k\<rparr>) (Some ''database is locked'')"

definition nearly_full_server :: server where
  \<comment> \<open>a start on a database file whose one row has the id \<open>2^63 - 3\<close>\<close>
  "nearly_full_server =
     restart \<lparr>db = \<lparr>table = [\<lparr>ID = 9223372036854775805, Name = ''Ann'', Review = ''Great'', Rating = 5\<rparr>],
                    sequence = 9223372036854775805, executed = []\<rparr>,
              idCounter = 0\<rparr>"

text \<open>
  A request removes the row with id \<open>i\<close> when it is a \<open>DELETE\<close> of \<open>i\<close> whose statement
  the driver executes (an error of \<open>RowsAffected\<close> comes after the row is gone).
\<close>

fun removes :: "int \<Rightarrow> event \<Rightarrow> bool" where
  "removes i (Request (DeleteReviewReq m decoded flt flt_rows)) =
     (m = DELETE \<and> decoded = Some i \<and> flt = None)"
| "removes i (Request (ReviewsReq m decoded flt)) = False"
| "removes i Restart = False"

text \<open>The table holds \<open>row\<close>, and no other row with its id.\<close>

definition holds_row :: "Review \<Rightarrow> server \<Rightarrow> bool" where
  "holds_row row s =
     (row \<in> set (table (db s)) \<and> list_all (\<lambda>x. x = row \<or> ID x \<noteq> ID row) (table (db s)))"

section \<open>Basic facts about the program\<close>

lemma go_incr_neq: "go_incr x \<noteq> x"
  by (simp add: go_incr_def)

lemma go_incr_in_range: "x < max_int64 \<Longrightarrow> go_incr x = x + 1"
  by (simp add: go_incr_def)

lemma fresh_server_eq:
  "fresh_server =
     \<lparr>db = \<lparr>table = [], sequence = 0, executed = [CreateTable, SelectMaxId]\<rparr>, idCounter = 0\<rparr>"
  by (simp add: fresh_server_def restart_def main_start_def initializeDatabase_def
      loadIDCounter_def query_max_def sent_def empty_database_def)

lemma next_rowid_fresh: "next_rowid (db fresh_server) = Some 1"
  by (simp add: fresh_server_eq next_rowid_def high_water_def max_int64_def)

lemma handlePostReview_None:
  "handlePostReview None flt s = (http_Error ''Invalid request payload'' 400, s)"
  by (simp add: handlePostReview_def)

lemma handlePostReview_bad_rating:
  "Rating r < 1 \<or> 5 < Rating r \<Longrightarrow>
   handlePostReview (Some r) flt s =
     (http_Error ''Invalid rating value. Must be between 1 and 5.'' 400, s)"
  by (auto simp add: handlePostReview_def)

text \<open>The statement \<open>saveReview\<close> sends has no id: the review's \<open>ID\<close> field is not read.\<close>

lemma saveReview_ignores_ID: "saveReview flt (r\<lparr>ID := i\<rparr>) d = saveReview flt r d"
  by (simp add: saveReview_def)

lemma saveReview_cases:
  "saveReview flt r d =
     (case flt of
        Some msg \<Rightarrow> (Some (DriverError msg), sent (InsertReview (Name r) (Review r) (Rating r)) d)
      | None \<Rightarrow>
          (case next_rowid d of
             None \<Rightarrow> (Some (DriverError ''database or disk is full''),
                       sent (InsertReview (Name r) (Review r) (Rating r)) d)
           | Some i \<Rightarrow>
               (None, \<lparr>table = table d @ [\<lparr>ID = i, Name = Name r, Review = Review r, Rating = Rating r\<rparr>],
                       sequence = i,
                       executed = executed d @ [InsertReview (Name r) (Review r) (Rating r)]\<rparr>)))"
  by (simp add: saveReview_def exec_insert_def sent_def Let_def split: option.splits)

lemma handlePostReview_valid:
  "1 \<le> Rating r \<Longrightarrow> Rating r \<le> 5 \<Longrightarrow>
   handlePostReview (Some r) flt s =
     (case saveReview flt r (db s) of
        (Some err, d') \<Rightarrow>
          (http_Error ''Failed to save review'' 500, \<lparr>db = d', idCounter = go_incr (idCounter s)\<rparr>)
      | (None, d') \<Rightarrow>
          (\<lparr>status = 200,
            body = Json (JObject [(''id'', JInt (go_incr (idCounter s))), (''success'', JBool True)])\<rparr>,
           \<lparr>db = d', idCounter = go_incr (idCounter s)\<rparr>))"
  by (simp add: handlePostReview_def Let_def saveReview_ignores_ID split: prod.splits option.splits)

section \<open>Validation of a create request\<close>

text \<open>
  Claim C10. A create request that is rejected as a client error (its body does not
  decode, or its rating is below 1 or above 5) leaves \<open>idCounter\<close> as it was, and these
  are the only create requests that do: the handler answers 400 exactly for them, and
  the counter is unchanged exactly for them, since every request that passes both checks
  increments it.
\<close>

theorem rejected_create_keeps_counter:
  "(status (fst (handlePostReview decoded flt s)) = 400
      \<longleftrightarrow> (decoded = None \<or> (\<exists>r. decoded = Some r \<and> (Rating r < 1 \<or> 5 < Rating r))))
   \<and> (idCounter (snd (handlePostReview decoded flt s)) = idCounter s
      \<longleftrightarrow> (decoded = None \<or> (\<exists>r. decoded = Some r \<and> (Rating r < 1 \<or> 5 < Rating r))))"
proof (cases decoded)
  case None
  then show ?thesis by (simp add: handlePostReview_None http_Error_def)
next
  case (Some r)
  show ?thesis
  proof (cases "Rating r < 1 \<or> 5 < Rating r")
    case True
    then show ?thesis using Some
      by (simp add: handlePostReview_bad_rating http_Error_def)
  next
    case False
    then have v: "1 \<le> Rating r" "Rating r \<le> 5" by auto
    show ?thesis using Some False
      by (simp add: handlePostReview_valid [OF v] http_Error_def go_incr_neq
          split: prod.splits option.splits)
  qed
qed

theorem rejected_create_keeps_counter_witness:
  "status (fst (handlePostReview (Some \<lparr>ID = 0, Name = ''Ann'', Review = ''Great'', Rating = 6\<rparr>) None fresh_server)) = 400
   \<and> idCounter (snd (handlePostReview (Some \<lparr>ID = 0, Name = ''Ann'', Review = ''Great'', Rating = 6\<rparr>) None fresh_server)) = 0
   \<and> idCounter (snd (handlePostReview (Some \<lparr>ID = 0, Name = ''Ann'', Review = ''Great'', Rating = 5\<rparr>) None fresh_server)) = 1"
  using rejected_create_keeps_counter [of "Some \<lparr>ID = 0, Name = ''Ann'', Review = ''Great'', Rating = 6\<rparr>" None fresh_server]
  by (simp add: fresh_server_eq handlePostReview_def saveReview_cases go_incr_def max_int64_def
      next_rowid_def high_water_def Let_def)

text \<open>
  Claim C6. A create request whose body does not decode or whose rating is outside 1..5
  is answered with 400 and the state after it is the state before it: no statement is
  sent to the database, and table and counter are unchanged. A decoded request with a
  rating from 1 to 5 is not answered with 400: the handler sends the insert of its
  name, review and rating; when the store accepts the insert (no driver fault, a rowid
  \<open>i\<close> is left) the answer is 200 and the table has gained the row with these fields.
\<close>

theorem create_validation:
  "((decoded = None \<or> (\<exists>r. decoded = Some r \<and> (Rating r < 1 \<or> 5 < Rating r))) \<longrightarrow>
      status (fst (handlePostReview decoded flt s)) = 400 \<and>
      snd (handlePostReview decoded flt s) = s)
   \<and> (1 \<le> Rating r \<and> Rating r \<le> 5 \<longrightarrow>
      status (fst (handlePostReview (Some r) flt s)) \<noteq> 400 \<and>
      executed (db (snd (handlePostReview (Some r) flt s))) =
        executed (db s) @ [InsertReview (Name r) (Review r) (Rating r)] \<and>
      (flt = None \<and> next_rowid (db s) = Some i \<longrightarrow>
         status (fst (handlePostReview (Some r) flt s)) = 200 \<and>
         table (db (snd (handlePostReview (Some r) flt s))) =
           table (db s) @ [\<lparr>ID = i, Name = Name r, Review = Review r, Rating = Rating r\<rparr>]))"
proof (intro conjI impI)
  assume "decoded = None \<or> (\<exists>r. decoded = Some r \<and> (Rating r < 1 \<or> 5 < Rating r))"
  then have "handlePostReview decoded flt s = (http_Error ''Invalid request payload'' 400, s) \<or>
    handlePostReview decoded flt s =
      (http_Error ''Invalid rating value. Must be between 1 and 5.'' 400, s)"
    using handlePostReview_None handlePostReview_bad_rating by blast
  then show "status (fst (handlePostReview decoded flt s)) = 400"
    and "snd (handlePostReview decoded flt s) = s"
    by (auto simp add: http_Error_def)
next
  assume "1 \<le> Rating r \<and> Rating r \<le> 5"
  then have v: "1 \<le> Rating r" "Rating r \<le> 5" by simp_all
  show "status (fst (handlePostReview (Some r) flt s)) \<noteq> 400"
    by (simp add: handlePostReview_valid [OF v] http_Error_def split: prod.splits option.splits)
  show "executed (db (snd (handlePostReview (Some r) flt s))) =
        executed (db s) @ [InsertReview (Name r) (Review r) (Rating r)]"
    by (simp add: handlePostReview_valid [OF v] saveReview_cases sent_def split: option.splits)
  assume ok: "flt = None \<and> next_rowid (db s) = Some i"
  show "status (fst (handlePostReview (Some r) flt s)) = 200"
    using ok by (simp add: handlePostReview_valid [OF v] saveReview_cases)
  show "table (db (snd (handlePostReview (Some r) flt s))) =
           table (db s) @ [\<lparr>ID = i, Name = Name r, Review = Review r, Rating = Rating r\<rparr>]"
    using ok by (simp add: handlePostReview_valid [OF v] saveReview_cases)
qed

theorem create_validation_witness:
  "status (fst (handlePostReview (Some \<lparr>ID = 0, Name = ''Ann'', Review = ''Great'', Rating = 0\<rparr>) None fresh_server)) = 400
   \<and> snd (handlePostReview (Some \<lparr>ID = 0, Name = ''Ann'', Review = ''Great'', Rating = 0\<rparr>) None fresh_server) = fresh_server
   \<and> status (fst (handlePostReview (Some \<lparr>ID = 0, Name = ''Ann'', Review = ''Great'', Rating = 6\<rparr>) None fresh_server)) = 400
   \<and> snd (handlePostReview (Some \<lparr>ID = 0, Name = ''Ann'', Review = ''Great'', Rating = 6\<rparr>) None fresh_server) = fresh_server
   \<and> status (fst (handlePostReview None None fresh_server)) = 400
   \<and> snd (handlePostReview None None fresh_server) = fresh_server
   \<and> status (fst (handlePostReview (Some \<lparr>ID = 0, Name = ''Ann'', Review = ''Great'', Rating = 1\<rparr>) None fresh_server)) = 200
   \<and> table (db (snd (handlePostReview (Some \<lparr>ID = 0, Name = ''Ann'', Review = ''Great'', Rating = 1\<rparr>) None fresh_server)))
       = [\<lparr>ID = 1, Name = ''Ann'', Review = ''Great'', Rating = 1\<rparr>]
   \<and> status (fst (handlePostReview (Some \<lparr>ID = 0, Name = ''Ann'', Review = ''Great'', Rating = 5\<rparr>) None fresh_server)) = 200
   \<and> table (db (snd (handlePostReview (Some \<lparr>ID = 0, Name = ''Ann'', Review = ''Great'', Rating = 5\<rparr>) None fresh_server)))
       = [\<lparr>ID = 1, Name = ''Ann'', Review = ''Great'', Rating = 5\<rparr>]"
  using create_validation [of "Some \<lparr>ID = 0, Name = ''Ann'', Review = ''Great'', Rating = 0\<rparr>" None fresh_server
       "\<lparr>ID = 0, Name = ''Ann'', Review = ''Great'', Rating = 1\<rparr>" 1]
    create_validation [of "Some \<lparr>ID = 0, Name = ''Ann'', Review = ''Great'', Rating = 6\<rparr>" None fresh_server
       "\<lparr>ID = 0, Name = ''Ann'', Review = ''Great'', Rating = 5\<rparr>" 1]
    create_validation [of None None fresh_server "\<lparr>ID = 0, Name = ''Ann'', Review = ''Great'', Rating = 5\<rparr>" 1]
    next_rowid_fresh
  by (simp add: fresh_server_eq)

section \<open>Deleting and listing\<close>

lemma filter_no_match:
  "i \<notin> ID ` set rows \<Longrightarrow>
     filter (\<lambda>r. ID r = i) rows = [] \<and> filter (\<lambda>r. ID r \<noteq> i) rows = rows"
  by (induction rows) auto

lemma deleteReview_no_fault:
  "deleteReview None None i d =
     (if i \<in> ID ` set (table d) then None
      else Some (Errorf (''no review found with id '' @ show_int i)),
      \<lparr>table = filter (\<lambda>r. ID r \<noteq> i) (table d), sequence = sequence d,
       executed = executed d @ [DeleteById i]\<rparr>)"
  by (auto simp add: deleteReview_def exec_delete_def sent_def Let_def filter_empty_conv)

lemma deleteReview_fault:
  "fst (deleteReview (Some msg) flt_rows i d) = Some (DriverError msg)"
  by (simp add: deleteReview_def exec_delete_def Let_def)

text \<open>
  Claim C7. When no row of the table has the id of a delete request (the statement
  affects zero rows), \<open>deleteReview\<close> returns the error built by \<open>fmt.Errorf\<close> with the
  text "no review found with id" and the id, which is not the error a failing
  statement returns (that one is the driver's); the handler answers 500 with the body
  \<open>{"error": "Failed to delete review: no review found with id <id>"}\<close>, and the table
  is unchanged.
\<close>

theorem delete_missing_id:
  "i \<notin> ID ` set (table (db s)) \<Longrightarrow>
     fst (deleteReview None None i (db s)) = Some (Errorf (''no review found with id '' @ show_int i))
   \<and> fst (deleteReview None None i (db s)) \<noteq> fst (deleteReview (Some msg) flt_rows i (db s))
   \<and> fst (deleteReviewHandler DELETE (Some i) None None s) =
       \<lparr>status = 500,
        body = Json (JObject [(''error'',
                 JString (''Failed to delete review: no review found with id '' @ show_int i))])\<rparr>
   \<and> table (db (snd (deleteReviewHandler DELETE (Some i) None None s))) = table (db s)"
  by (simp add: deleteReviewHandler_def deleteReview_no_fault deleteReview_fault
      respondWithJSON_def filter_no_match)

theorem delete_missing_id_witness:
  "fst (deleteReviewHandler DELETE (Some 7) None None fresh_server) =
       \<lparr>status = 500,
        body = Json (JObject [(''error'', JString ''Failed to delete review: no review found with id 7'')])\<rparr>
   \<and> fst (deleteReview None None 7 (db fresh_server)) = Some (Errorf ''no review found with id 7'')
   \<and> fst (deleteReview (Some ''database is locked'') None 7 (db fresh_server)) =
       Some (DriverError ''database is locked'')"
  using delete_missing_id [of 7 fresh_server "''database is locked''" None]
  by (simp add: fresh_server_eq show_int_def deleteReview_fault)

lemma loadReviews_fold:
  "fold (\<lambda>row reviews. append_slice reviews row) rows (Slice xs) = Slice (xs @ rows)"
  by (induction rows arbitrary: xs) simp_all

lemma loadReviews_no_fault:
  "loadReviews None d =
     (Inr (if table d = [] then NilSlice else Slice (table d)), sent SelectAll d)"
  by (cases "table d") (simp_all add: loadReviews_def query_all_def Let_def loadReviews_fold)

lemma handleGetReviews_no_fault:
  "handleGetReviews None s =
     (\<lparr>status = 200,
       body = Json (if table (db s) = [] then JNull else JArray (map json_of_Review (table (db s))))\<rparr>,
      s\<lparr>db := sent SelectAll (db s)\<rparr>)"
  by (simp add: handleGetReviews_def loadReviews_no_fault)

text \<open>
  Claim C3 says that the list of an empty store is answered with 200 and an empty JSON
  array, not \<open>null\<close>. The code answers 200 with \<open>null\<close>: \<open>loadReviews\<close> declares
  \<open>var reviews []Review\<close>, a nil slice, the loop over zero rows appends nothing, and
  \<open>encoding/json\<close> encodes a nil slice as \<open>null\<close>. The theorem evaluates the list
  request on the first start of the service (\<open>handleGetReviews_no_fault\<close> is the same for
  every state with an empty table).
\<close>

theorem list_of_empty_store_is_null:
  "fst (serve getReviews fresh_server) = \<lparr>status = 200, body = Json JNull\<rparr>
   \<and> body (fst (serve getReviews fresh_server)) \<noteq> Json (JArray [])"
  by (simp add: getReviews_def withCORS_def reviewsHandler_def handleGetReviews_no_fault
      fresh_server_eq)

section \<open>The ids create requests are answered with\<close>

lemma assigned_id_simps:
  "assigned_id (http_Error msg code) = None"
  "assigned_id (respondWithJSON code (JObject [(''error'', v)])) = None"
  "assigned_id (respondWithJSON code (JObject [(''success'', v)])) = None"
  "assigned_id \<lparr>status = 200, body = Text t\<rparr> = None"
  "assigned_id \<lparr>status = 200, body = Json JNull\<rparr> = None"
  "assigned_id \<lparr>status = 200, body = Json (JArray js)\<rparr> = None"
  "assigned_id \<lparr>status = 200, body = Json (JObject [(''id'', JInt n), (''success'', JBool True)])\<rparr> = Some n"
  by (simp_all add: assigned_id_def http_Error_def respondWithJSON_def)

lemma assigned_ids_Cons:
  "assigned_ids (r # rs) = (case assigned_id r of None \<Rightarrow> [] | Some n \<Rightarrow> [n]) @ assigned_ids rs"
  by (simp add: assigned_ids_def)

lemma assigned_ids_Nil: "assigned_ids [] = []"
  by (simp add: assigned_ids_def)

text \<open>
  One request either leaves the counter and assigns no id, or increments the counter
  and, when it answers with an id, answers with the new counter value.
\<close>

lemma handlePostReview_step:
  "handlePostReview decoded flt s = (r, s') \<Longrightarrow>
     (idCounter s' = idCounter s \<and> assigned_id r = None) \<or>
     (idCounter s' = go_incr (idCounter s) \<and>
        (assigned_id r = None \<or> assigned_id r = Some (go_incr (idCounter s))))"
proof (cases decoded)
  case None
  assume "handlePostReview decoded flt s = (r, s')"
  then show ?thesis using None by (auto simp add: handlePostReview_None assigned_id_simps)
next
  case (Some x)
  assume h: "handlePostReview decoded flt s = (r, s')"
  show ?thesis
  proof (cases "Rating x < 1 \<or> 5 < Rating x")
    case True
    then show ?thesis using h Some
      by (auto simp add: handlePostReview_bad_rating assigned_id_simps)
  next
    case False
    then have v: "1 \<le> Rating x" "Rating x \<le> 5" by auto
    show ?thesis using h Some
      by (auto simp add: handlePostReview_valid [OF v] assigned_id_simps
          split: prod.splits option.splits)
  qed
qed

lemma handleGetReviews_step:
  "handleGetReviews flt s = (r, s') \<Longrightarrow> idCounter s' = idCounter s \<and> assigned_id r = None"
proof (cases flt)
  case None
  assume "handleGetReviews flt s = (r, s')"
  then show ?thesis using None
    by (auto simp add: handleGetReviews_no_fault assigned_id_simps)
next
  case (Some msg)
  assume "handleGetReviews flt s = (r, s')"
  then show ?thesis using Some
    by (auto simp add: handleGetReviews_def loadReviews_def query_all_def Let_def assigned_id_simps)
qed

lemma deleteReviewHandler_step:
  "deleteReviewHandler m decoded flt flt_rows s = (r, s') \<Longrightarrow>
     idCounter s' = idCounter s \<and> assigned_id r = None"
  by (auto simp add: deleteReviewHandler_def assigned_id_simps
      split: if_splits option.splits prod.splits)

lemma serve_step:
  "serve q s = (r, s') \<Longrightarrow>
     (idCounter s' = idCounter s \<and> assigned_id r = None) \<or>
     (idCounter s' = go_incr (idCounter s) \<and>
        (assigned_id r = None \<or> assigned_id r = Some (go_incr (idCounter s))))"
proof (cases q)
  case (ReviewsReq m decoded flt)
  assume "serve q s = (r, s')"
  then show ?thesis using ReviewsReq
    by (cases m)
       (auto simp add: withCORS_def reviewsHandler_def assigned_id_simps
          dest: handlePostReview_step handleGetReviews_step)
next
  case (DeleteReviewReq m decoded flt flt_rows)
  assume "serve q s = (r, s')"
  then show ?thesis using DeleteReviewReq
    by (auto simp add: withCORS_def assigned_id_simps split: if_splits
        dest: deleteReviewHandler_step)
qed

lemma serve_all_ids:
  "idCounter s + int (length qs) \<le> max_int64 \<Longrightarrow> serve_all qs s = (rs, s') \<Longrightarrow>
     idCounter s \<le> idCounter s' \<and> idCounter s' \<le> idCounter s + int (length qs) \<and>
     (\<forall>n \<in> set (assigned_ids rs). idCounter s < n \<and> n \<le> idCounter s') \<and>
     sorted_wrt (<) (assigned_ids rs)"
proof (induction qs arbitrary: s rs s')
  case Nil
  then show ?case by (simp add: assigned_ids_Nil)
next
  case (Cons q qs)
  obtain r s1 where q: "serve q s = (r, s1)" by (cases "serve q s")
  obtain rs1 s2 where rest: "serve_all qs s1 = (rs1, s2)" by (cases "serve_all qs s1")
  from Cons.prems(2) q rest have out: "rs = r # rs1" "s' = s2" by simp_all
  from Cons.prems(1) have lt: "idCounter s < max_int64" by simp
  from serve_step [OF q] lt
  have step: "(idCounter s1 = idCounter s \<and> assigned_id r = None) \<or>
     (idCounter s1 = idCounter s + 1 \<and>
        (assigned_id r = None \<or> assigned_id r = Some (idCounter s + 1)))"
    by (simp add: go_incr_in_range)
  then have bound: "idCounter s1 + int (length qs) \<le> max_int64"
    using Cons.prems(1) by auto
  note ih = Cons.IH [OF bound rest]
  from step show ?case
  proof (elim disjE conjE)
    assume "idCounter s1 = idCounter s" "assigned_id r = None"
    then show ?thesis using ih out by (auto simp add: assigned_ids_Cons)
  next
    assume "idCounter s1 = idCounter s + 1" "assigned_id r = None"
    then show ?thesis using ih out by (auto simp add: assigned_ids_Cons)
  next
    assume "idCounter s1 = idCounter s + 1" "assigned_id r = Some (idCounter s + 1)"
    then show ?thesis using ih out by (auto simp add: assigned_ids_Cons)
  qed
qed

text \<open>
  Claim C5, as stated: in one process lifetime the ids of successful creates strictly
  increase, for every sequence of requests. \<open>idCounter\<close> is a 64-bit integer and
  \<open>idCounter++\<close> wraps: on a database file that already holds an id three below
  \<open>2^63\<close>, a create whose insert fails followed by two creates that succeed answers
  with \<open>2^63 - 1\<close> and then with \<open>-2^63\<close>.
\<close>

theorem assigned_ids_wrap_counterexample:
  "\<not> sorted_wrt (<) (assigned_ids (fst (serve_all
      [postReview_failing ''Bob'' ''Ok'' 3, postReview ''Cy'' ''Bad'' 1, postReview ''Dee'' ''Fine'' 4]
      nearly_full_server)))"
  by code_simp

text \<open>
  Claim C5, amended: in one process lifetime, as long as the counter stays in the range
  of a 64-bit integer (the counter at the start plus the number of requests served is at
  most \<open>2^63 - 1\<close>), the ids successful creates are answered with strictly increase in
  the order in which the handlers run, and no two are equal. The requests are any
  requests (creates that are rejected or fail, lists, deletes), under any faults.
\<close>

theorem assigned_ids_increase:
  "idCounter s + int (length qs) \<le> max_int64 \<Longrightarrow>
     sorted_wrt (<) (assigned_ids (fst (serve_all qs s))) \<and>
     distinct (assigned_ids (fst (serve_all qs s)))"
proof -
  assume b: "idCounter s + int (length qs) \<le> max_int64"
  obtain rs s' where run: "serve_all qs s = (rs, s')" by (cases "serve_all qs s")
  from serve_all_ids [OF b run] have "sorted_wrt (<) (assigned_ids rs)" by simp
  then show ?thesis using run by (simp add: strict_sorted_iff)
qed

theorem assigned_ids_increase_witness:
  "sorted_wrt (<) (assigned_ids (fst (serve_all
      [postReview ''Ann'' ''Great'' 5, postReview_failing ''Bob'' ''Ok'' 3, postReview ''Cy'' ''Bad'' 1]
      fresh_server)))
   \<and> assigned_ids (fst (serve_all
      [postReview ''Ann'' ''Great'' 5, postReview_failing ''Bob'' ''Ok'' 3, postReview ''Cy'' ''Bad'' 1]
      fresh_server)) = [1, 3]"
proof -
  have b: "idCounter fresh_server + int (length
      [postReview ''Ann'' ''Great'' 5, postReview_failing ''Bob'' ''Ok'' 3, postReview ''Cy'' ''Bad'' 1])
      \<le> max_int64"
    by (simp add: fresh_server_eq max_int64_def)
  have e: "assigned_ids (fst (serve_all
      [postReview ''Ann'' ''Great'' 5, postReview_failing ''Bob'' ''Ok'' 3, postReview ''Cy'' ''Bad'' 1]
      fresh_server)) = [1, 3]"
    by code_simp
  from assigned_ids_increase [OF b] e show ?thesis by simp
qed

section \<open>Restarts\<close>

lemma max_id_None: "max_id rows = None \<longleftrightarrow> rows = []"
  by (cases rows) simp_all

lemma max_id_bound: "max_id rows = Some m \<Longrightarrow> row \<in> set rows \<Longrightarrow> ID row \<le> m"
  by (induction rows arbitrary: m) (auto simp add: max_id_None split: option.splits)

lemma high_water_bound: "row \<in> set (table d) \<Longrightarrow> ID row \<le> high_water d"
  by (cases "max_id (table d)") (auto simp add: high_water_def max_id_None dest: max_id_bound)

lemma restart_eq:
  "restart s =
     \<lparr>db = \<lparr>table = table (db s), sequence = sequence (db s),
             executed = executed (db s) @ [CreateTable, SelectMaxId]\<rparr>,
      idCounter = (case max_id (table (db s)) of None \<Rightarrow> 0 | Some m \<Rightarrow> m)\<rparr>"
  by (simp add: restart_def main_start_def initializeDatabase_def loadIDCounter_def
      query_max_def sent_def split: option.splits)

lemma handlePostReview_assigned:
  assumes "assigned_id (fst (handlePostReview decoded flt s)) = Some n"
  shows "n = go_incr (idCounter s) \<and> next_rowid (db s) \<noteq> None"
proof (cases decoded)
  case None
  then show ?thesis using assms by (simp add: handlePostReview_None assigned_id_simps)
next
  case (Some x)
  show ?thesis
  proof (cases "Rating x < 1 \<or> 5 < Rating x")
    case True
    then show ?thesis using assms Some
      by (simp add: handlePostReview_bad_rating assigned_id_simps)
  next
    case False
    then have v: "1 \<le> Rating x" "Rating x \<le> 5" by auto
    show ?thesis using assms Some
      by (auto simp add: handlePostReview_valid [OF v] saveReview_cases assigned_id_simps
          split: option.splits)
  qed
qed

text \<open>
  Claim C4, as stated, has the next id after a restart strictly greater than the highest
  id a create was answered with before the restart. \<open>loadIDCounter\<close> sets the counter to
  the largest id among the rows that are in the table at the start: after the creates
  answered with 1 and 2, the delete of 2 and a restart, the next create is answered
  with 2 again.
\<close>

theorem restart_reuses_id_counterexample:
  "\<exists>n. assigned_id (fst (serve (postReview ''Cy'' ''Bad'' 1)
          (restart (snd (serve_all
             [postReview ''Ann'' ''Great'' 5, postReview ''Bob'' ''Ok'' 3, deleteById 2] fresh_server))))) = Some n
     \<and> \<not> (\<forall>m \<in> set (assigned_ids (fst (serve_all
             [postReview ''Ann'' ''Great'' 5, postReview ''Bob'' ''Ok'' 3, deleteById 2] fresh_server))). m < n)"
proof -
  have "assigned_id (fst (serve (postReview ''Cy'' ''Bad'' 1)
          (restart (snd (serve_all
             [postReview ''Ann'' ''Great'' 5, postReview ''Bob'' ''Ok'' 3, deleteById 2] fresh_server))))) = Some 2"
    by code_simp
  moreover have "assigned_ids (fst (serve_all
             [postReview ''Ann'' ''Great'' 5, postReview ''Bob'' ''Ok'' 3, deleteById 2] fresh_server)) = [1, 2]"
    by code_simp
  ultimately show ?thesis by simp
qed

text \<open>
  Claim C4, amended: a restart leaves the rows of the table as they are; it sets the
  counter to the largest id of a row of the table, and to zero when the table has no
  row; and the id the next create is answered with, when it succeeds, is strictly
  greater than the id of every row that is in the table at the restart.
\<close>

theorem restart_reseeds_counter:
  "table (db (restart s)) = table (db s)
   \<and> idCounter (restart s) = (case max_id (table (db s)) of None \<Rightarrow> 0 | Some m \<Rightarrow> m)
   \<and> (assigned_id (fst (handlePostReview decoded flt (restart s))) = Some n \<longrightarrow>
        (\<forall>row \<in> set (table (db s)). ID row < n))"
proof (intro conjI impI ballI)
  show "table (db (restart s)) = table (db s)" by (simp add: restart_eq)
  show "idCounter (restart s) = (case max_id (table (db s)) of None \<Rightarrow> 0 | Some m \<Rightarrow> m)"
    by (simp add: restart_eq)
next
  fix row
  assume a: "assigned_id (fst (handlePostReview decoded flt (restart s))) = Some n"
    and row: "row \<in> set (table (db s))"
  from handlePostReview_assigned [OF a]
  have n: "n = go_incr (idCounter (restart s))" and free: "next_rowid (db (restart s)) \<noteq> None"
    by simp_all
  from row obtain m where m: "max_id (table (db s)) = Some m"
    by (cases "max_id (table (db s))") (auto simp add: max_id_None)
  have hw: "high_water (db (restart s)) < max_int64"
    using free by (simp add: next_rowid_def split: if_splits)
  have "m \<le> high_water (db (restart s))"
    using m by (simp add: high_water_def restart_eq)
  then have "m < max_int64" using hw by simp
  then have "n = m + 1" using n m by (simp add: restart_eq go_incr_in_range)
  moreover have "ID row \<le> m" using max_id_bound [OF m row] .
  ultimately show "ID row < n" by simp
qed

theorem restart_reseeds_counter_witness:
  "table (db (restart (snd (serve_all [postReview ''Ann'' ''Great'' 5, postReview ''Bob'' ''Ok'' 3] fresh_server))))
     = [\<lparr>ID = 1, Name = ''Ann'', Review = ''Great'', Rating = 5\<rparr>, \<lparr>ID = 2, Name = ''Bob'', Review = ''Ok'', Rating = 3\<rparr>]
   \<and> idCounter (restart (snd (serve_all [postReview ''Ann'' ''Great'' 5, postReview ''Bob'' ''Ok'' 3] fresh_server))) = 2
   \<and> assigned_id (fst (handlePostReview (Some \<lparr>ID = 0, Name = ''Cy'', Review = ''Bad'', Rating = 1\<rparr>) None
        (restart (snd (serve_all [postReview ''Ann'' ''Great'' 5, postReview ''Bob'' ''Ok'' 3] fresh_server))))) = Some 3
   \<and> list_all (\<lambda>row. ID row < 3)
        (table (db (snd (serve_all [postReview ''Ann'' ''Great'' 5, postReview ''Bob'' ''Ok'' 3] fresh_server))))"
proof -
  have a: "assigned_id (fst (handlePostReview (Some \<lparr>ID = 0, Name = ''Cy'', Review = ''Bad'', Rating = 1\<rparr>) None
        (restart (snd (serve_all [postReview ''Ann'' ''Great'' 5, postReview ''Bob'' ''Ok'' 3] fresh_server))))) = Some 3"
    by code_simp
  have t: "table (db (snd (serve_all [postReview ''Ann'' ''Great'' 5, postReview ''Bob'' ''Ok'' 3] fresh_server)))
     = [\<lparr>ID = 1, Name = ''Ann'', Review = ''Great'', Rating = 5\<rparr>, \<lparr>ID = 2, Name = ''Bob'', Review = ''Ok'', Rating = 3\<rparr>]"
    by code_simp
  from restart_reseeds_counter [of "snd (serve_all [postReview ''Ann'' ''Great'' 5, postReview ''Bob'' ''Ok'' 3] fresh_server)"
      "Some \<lparr>ID = 0, Name = ''Cy'', Review = ''Bad'', Rating = 1\<rparr>" None 3] a t
  show ?thesis by (simp add: list_all_iff)
qed

section \<open>A failing insert\<close>

text \<open>
  Claim C8, as stated, has the id of a failed insert consumed for good: the next
  successful create gets a strictly larger id and the gap is permanent. The counter
  lives in the process only: on the first start, a create whose insert fails takes the
  counter to 1; after a restart the counter is 0 again, and the next successful create
  is answered with 1.
\<close>

theorem consumed_id_reused_after_restart_counterexample:
  "status (fst (serve (postReview_failing ''Ann'' ''Great'' 5) fresh_server)) = 500
   \<and> idCounter (snd (serve (postReview_failing ''Ann'' ''Great'' 5) fresh_server)) = 1
   \<and> assigned_id (fst (serve (postReview ''Bob'' ''Ok'' 3)
        (restart (snd (serve (postReview_failing ''Ann'' ''Great'' 5) fresh_server))))) = Some 1"
  by code_simp

text \<open>
  Claim C8, amended: when the insert of a create request that passed validation fails
  (a driver fault, or no rowid is left), the handler answers 500, the counter has been
  incremented and is not set back, and the table is unchanged; in the same process
  lifetime, as long as the counter stays in the range of a 64-bit integer, every id a
  later create is answered with is strictly greater than the id that was consumed, so
  that id is not assigned again before the process ends.
\<close>

theorem failed_insert_consumes_id:
  "1 \<le> Rating r \<Longrightarrow> Rating r \<le> 5 \<Longrightarrow> fst (saveReview flt r (db s)) \<noteq> None \<Longrightarrow>
     status (fst (handlePostReview (Some r) flt s)) = 500
   \<and> idCounter (snd (handlePostReview (Some r) flt s)) = go_incr (idCounter s)
   \<and> idCounter (snd (handlePostReview (Some r) flt s)) \<noteq> idCounter s
   \<and> table (db (snd (handlePostReview (Some r) flt s))) = table (db s)
   \<and> (idCounter s + 1 + int (length qs) \<le> max_int64 \<longrightarrow>
        (\<forall>n \<in> set (assigned_ids (fst (serve_all qs (snd (handlePostReview (Some r) flt s))))).
           go_incr (idCounter s) < n))"
proof -
  assume v: "1 \<le> Rating r" "Rating r \<le> 5" and fail: "fst (saveReview flt r (db s)) \<noteq> None"
  obtain err d' where sv: "saveReview flt r (db s) = (Some err, d')"
    using fail by (cases "saveReview flt r (db s)") auto
  have h: "handlePostReview (Some r) flt s =
      (http_Error ''Failed to save review'' 500, \<lparr>db = d', idCounter = go_incr (idCounter s)\<rparr>)"
    by (simp add: handlePostReview_valid [OF v] sv)
  have tab: "table d' = table (db s)"
    using sv by (auto simp add: saveReview_cases sent_def split: option.splits)
  have later: "\<forall>n \<in> set (assigned_ids (fst (serve_all qs \<lparr>db = d', idCounter = go_incr (idCounter s)\<rparr>))).
      go_incr (idCounter s) < n"
    if b: "idCounter s + 1 + int (length qs) \<le> max_int64"
  proof -
    from b have c: "go_incr (idCounter s) = idCounter s + 1" by (simp add: go_incr_in_range)
    obtain rs s' where run: "serve_all qs \<lparr>db = d', idCounter = go_incr (idCounter s)\<rparr> = (rs, s')"
      by (cases "serve_all qs \<lparr>db = d', idCounter = go_incr (idCounter s)\<rparr>")
    have "idCounter \<lparr>db = d', idCounter = go_incr (idCounter s)\<rparr> + int (length qs) \<le> max_int64"
      using b c by simp
    from serve_all_ids [OF this run] show ?thesis using run by simp
  qed
  show ?thesis using h tab later by (simp add: http_Error_def go_incr_neq)
qed

theorem failed_insert_consumes_id_witness:
  "status (fst (handlePostReview (Some \<lparr>ID = 0, Name = ''Ann'', Review = ''Great'', Rating = 5\<rparr>)
       (Some ''database is locked'') fresh_server)) = 500
   \<and> idCounter (snd (handlePostReview (Some \<lparr>ID = 0, Name = ''Ann'', Review = ''Great'', Rating = 5\<rparr>)
       (Some ''database is locked'') fresh_server)) = 1
   \<and> assigned_ids (fst (serve_all [postReview ''Bob'' ''Ok'' 3]
       (snd (handlePostReview (Some \<lparr>ID = 0, Name = ''Ann'', Review = ''Great'', Rating = 5\<rparr>)
          (Some ''database is locked'') fresh_server)))) = [2]
   \<and> list_all (\<lambda>n. 1 < n) (assigned_ids (fst (serve_all [postReview ''Bob'' ''Ok'' 3]
       (snd (handlePostReview (Some \<lparr>ID = 0, Name = ''Ann'', Review = ''Great'', Rating = 5\<rparr>)
          (Some ''database is locked'') fresh_server)))))"
proof -
  have f: "fst (saveReview (Some ''database is locked'') \<lparr>ID = 0, Name = ''Ann'', Review = ''Great'', Rating = 5\<rparr>
      (db fresh_server)) \<noteq> None"
    by (simp add: saveReview_cases)
  have b: "idCounter fresh_server + 1 + int (length [postReview ''Bob'' ''Ok'' 3]) \<le> max_int64"
    by (simp add: fresh_server_eq max_int64_def)
  have g: "go_incr (idCounter fresh_server) = 1"
    by (simp add: fresh_server_eq go_incr_def max_int64_def)
  have e: "assigned_ids (fst (serve_all [postReview ''Bob'' ''Ok'' 3]
       (snd (handlePostReview (Some \<lparr>ID = 0, Name = ''Ann'', Review = ''Great'', Rating = 5\<rparr>)
          (Some ''database is locked'') fresh_server)))) = [2]"
    by code_simp
  from failed_insert_consumes_id [of "\<lparr>ID = 0, Name = ''Ann'', Review = ''Great'', Rating = 5\<rparr>"
      "Some ''database is locked''" fresh_server "[postReview ''Bob'' ''Ok'' 3]", OF _ _ f] b g e
  show ?thesis by (simp add: list_all_iff)
qed

section \<open>What the table holds after a create\<close>

lemma handlePostReview_table:
  "table (db (snd (handlePostReview decoded flt s))) = table (db s) \<or>
   (\<exists>i n r k. next_rowid (db s) = Some i \<and>
      table (db (snd (handlePostReview decoded flt s))) =
        table (db s) @ [\<lparr>ID = i, Name = n, Review = r, Rating = k\<rparr>])"
proof (cases decoded)
  case None
  then show ?thesis by (simp add: handlePostReview_None)
next
  case (Some x)
  show ?thesis
  proof (cases "Rating x < 1 \<or> 5 < Rating x")
    case True
    then show ?thesis using Some by (simp add: handlePostReview_bad_rating)
  next
    case False
    then have v: "1 \<le> Rating x" "Rating x \<le> 5" by auto
    show ?thesis using Some
      by (auto simp add: handlePostReview_valid [OF v] saveReview_cases sent_def
          split: option.splits)
  qed
qed

lemma handleGetReviews_table: "table (db (snd (handleGetReviews flt s))) = table (db s)"
  by (cases flt)
     (simp_all add: handleGetReviews_def loadReviews_def query_all_def sent_def Let_def)

lemma deleteReviewHandler_table:
  "table (db (snd (deleteReviewHandler m decoded flt flt_rows s))) =
     (if m = DELETE \<and> flt = None
      then (case decoded of None \<Rightarrow> table (db s)
            | Some j \<Rightarrow> filter (\<lambda>r. ID r \<noteq> j) (table (db s)))
      else table (db s))"
  by (simp add: deleteReviewHandler_def deleteReview_def exec_delete_def sent_def Let_def
      split: option.splits)

lemma serve_table:
  "table (db (snd (serve q s))) = table (db s) \<or>
   (\<exists>i n r k. next_rowid (db s) = Some i \<and>
      table (db (snd (serve q s))) = table (db s) @ [\<lparr>ID = i, Name = n, Review = r, Rating = k\<rparr>]) \<or>
   (\<exists>j. removes j (Request q) \<and>
      table (db (snd (serve q s))) = filter (\<lambda>r. ID r \<noteq> j) (table (db s)))"
proof (cases q)
  case (ReviewsReq m decoded flt)
  then show ?thesis
    using handlePostReview_table [of decoded flt s]
    by (cases m) (auto simp add: withCORS_def reviewsHandler_def handleGetReviews_table)
next
  case (DeleteReviewReq m decoded flt flt_rows)
  then show ?thesis
    by (cases decoded) (auto simp add: withCORS_def deleteReviewHandler_table)
qed

lemma serve_holds_row:
  assumes "holds_row row s" "\<not> removes (ID row) (Request q)"
  shows "holds_row row (snd (serve q s))"
proof -
  from assms(1) have mem: "row \<in> set (table (db s))"
    and uniq: "\<forall>x \<in> set (table (db s)). x = row \<or> ID x \<noteq> ID row"
    by (simp_all add: holds_row_def list_all_iff)
  from serve_table [of q s] show ?thesis
  proof (elim disjE exE conjE)
    assume "table (db (snd (serve q s))) = table (db s)"
    then show ?thesis using assms(1) by (simp add: holds_row_def)
  next
    fix i n r k
    assume nx: "next_rowid (db s) = Some i"
      and t: "table (db (snd (serve q s))) = table (db s) @ [\<lparr>ID = i, Name = n, Review = r, Rating = k\<rparr>]"
    from nx have "i = high_water (db s) + 1" by (simp add: next_rowid_def split: if_splits)
    then have "ID row < i" using high_water_bound [OF mem] by simp
    then show ?thesis using mem uniq t by (auto simp add: holds_row_def list_all_iff)
  next
    fix j
    assume rm: "removes j (Request q)"
      and t: "table (db (snd (serve q s))) = filter (\<lambda>r. ID r \<noteq> j) (table (db s))"
    from rm assms(2) have "j \<noteq> ID row" by auto
    then show ?thesis using mem uniq t by (auto simp add: holds_row_def list_all_iff)
  qed
qed

lemma snd_run_Request: "snd (run (Request q # es) s) = snd (run es (snd (serve q s)))"
  by (simp split: prod.splits)

lemma run_holds_row:
  "holds_row row s \<Longrightarrow> list_all (\<lambda>e. \<not> removes (ID row) e) es \<Longrightarrow> holds_row row (snd (run es s))"
proof (induction es arbitrary: s)
  case Nil
  then show ?case by simp
next
  case (Cons e es)
  show ?case
  proof (cases e)
    case (Request q)
    from Cons.prems Request have "holds_row row (snd (serve q s))"
      by (simp add: serve_holds_row)
    from Cons.IH [OF this] Cons.prems(2) show ?thesis
      using Request by (simp add: snd_run_Request del: run.simps)
  next
    case Restart
    from Cons.prems(1) have "holds_row row (restart s)"
      by (simp add: holds_row_def restart_eq)
    from Cons.IH [OF this] Cons.prems(2) show ?thesis
      using Restart by simp
  qed
qed

lemma handlePostReview_200:
  assumes "status (fst (handlePostReview (Some r) flt s)) = 200"
  shows "\<exists>sid. next_rowid (db s) = Some sid \<and>
    table (db (snd (handlePostReview (Some r) flt s))) =
      table (db s) @ [\<lparr>ID = sid, Name = Name r, Review = Review r, Rating = Rating r\<rparr>] \<and>
    assigned_id (fst (handlePostReview (Some r) flt s)) = Some (go_incr (idCounter s)) \<and>
    executed (db (snd (handlePostReview (Some r) flt s))) =
      executed (db s) @ [InsertReview (Name r) (Review r) (Rating r)]"
proof (cases "Rating r < 1 \<or> 5 < Rating r")
  case True
  then show ?thesis using assms by (simp add: handlePostReview_bad_rating http_Error_def)
next
  case False
  then have v: "1 \<le> Rating r" "Rating r \<le> 5" by auto
  show ?thesis using assms
    by (auto simp add: handlePostReview_valid [OF v] saveReview_cases http_Error_def sent_def
        assigned_id_simps split: option.splits)
qed

text \<open>
  Claim C9. A create that is answered with 200 has stored a row with the name, the
  review and the rating of its payload, under the id \<open>sid\<close> the store gave it. After
  any later requests and restarts, under any faults, of which none is a delete of
  \<open>sid\<close> that the driver executes, a list request answers 200 with an array that has
  this row, with name, review and rating as submitted, and no other row with the id
  \<open>sid\<close>.
\<close>

theorem created_review_round_trip:
  "status (fst (handlePostReview (Some r) flt s)) = 200 \<Longrightarrow>
   \<exists>sid. next_rowid (db s) = Some sid \<and>
     (\<forall>es. list_all (\<lambda>e. \<not> removes sid e) es \<longrightarrow>
        (\<exists>rows. fst (handleGetReviews None (snd (run es (snd (handlePostReview (Some r) flt s))))) =
                  \<lparr>status = 200, body = Json (JArray (map json_of_Review rows))\<rparr>
          \<and> \<lparr>ID = sid, Name = Name r, Review = Review r, Rating = Rating r\<rparr> \<in> set rows
          \<and> (\<forall>x \<in> set rows. ID x = sid \<longrightarrow>
                x = \<lparr>ID = sid, Name = Name r, Review = Review r, Rating = Rating r\<rparr>)))"
proof -
  assume ok: "status (fst (handlePostReview (Some r) flt s)) = 200"
  let ?s1 = "snd (handlePostReview (Some r) flt s)"
  from handlePostReview_200 [OF ok] obtain sid where
    nx: "next_rowid (db s) = Some sid" and
    t: "table (db ?s1) = table (db s) @ [\<lparr>ID = sid, Name = Name r, Review = Review r, Rating = Rating r\<rparr>]"
    by blast
  let ?row = "\<lparr>ID = sid, Name = Name r, Review = Review r, Rating = Rating r\<rparr>"
  from nx have "sid = high_water (db s) + 1" by (simp add: next_rowid_def split: if_splits)
  then have fresh: "\<forall>x \<in> set (table (db s)). ID x < sid"
    using high_water_bound [of _ "db s"] by fastforce
  have h0: "holds_row ?row ?s1"
    using t fresh by (auto simp add: holds_row_def list_all_iff)
  have "\<exists>rows. fst (handleGetReviews None (snd (run es ?s1))) =
                  \<lparr>status = 200, body = Json (JArray (map json_of_Review rows))\<rparr>
          \<and> ?row \<in> set rows \<and> (\<forall>x \<in> set rows. ID x = sid \<longrightarrow> x = ?row)"
    if keep: "list_all (\<lambda>e. \<not> removes sid e) es" for es
  proof -
    from run_holds_row [OF h0] keep have h: "holds_row ?row (snd (run es ?s1))" by simp
    then have ne: "table (db (snd (run es ?s1))) \<noteq> []" by (auto simp add: holds_row_def)
    show ?thesis
      using h ne
      by (intro exI [of _ "table (db (snd (run es ?s1)))"])
         (auto simp add: handleGetReviews_no_fault holds_row_def list_all_iff)
  qed
  with nx show ?thesis by blast
qed

theorem created_review_round_trip_witness:
  "next_rowid (db fresh_server) = Some 1
   \<and> (\<exists>rows. fst (handleGetReviews None (snd (run
          [Request (postReview ''Bob'' ''Ok'' 3), Restart, Request (deleteById 2), Request getReviews]
          (snd (handlePostReview (Some \<lparr>ID = 0, Name = ''Ann'', Review = ''Great'', Rating = 5\<rparr>) None fresh_server)))))
        = \<lparr>status = 200, body = Json (JArray (map json_of_Review rows))\<rparr>
      \<and> \<lparr>ID = 1, Name = ''Ann'', Review = ''Great'', Rating = 5\<rparr> \<in> set rows)"
proof -
  have ok: "status (fst (handlePostReview (Some \<lparr>ID = 0, Name = ''Ann'', Review = ''Great'', Rating = 5\<rparr>) None fresh_server)) = 200"
    by code_simp
  have keep: "list_all (\<lambda>e. \<not> removes 1 e)
      [Request (postReview ''Bob'' ''Ok'' 3), Restart, Request (deleteById 2), Request getReviews]"
    by (simp add: postReview_def deleteById_def getReviews_def)
  from created_review_round_trip [OF ok] obtain sid where
    nx: "next_rowid (db fresh_server) = Some sid" and
    all: "\<forall>es. list_all (\<lambda>e. \<not> removes sid e) es \<longrightarrow>
        (\<exists>rows. fst (handleGetReviews None (snd (run es
            (snd (handlePostReview (Some \<lparr>ID = 0, Name = ''Ann'', Review = ''Great'', Rating = 5\<rparr>) None fresh_server))))) =
                  \<lparr>status = 200, body = Json (JArray (map json_of_Review rows))\<rparr>
          \<and> \<lparr>ID = sid, Name = ''Ann'', Review = ''Great'', Rating = 5\<rparr> \<in> set rows
          \<and> (\<forall>x \<in> set rows. ID x = sid \<longrightarrow>
                x = \<lparr>ID = sid, Name = ''Ann'', Review = ''Great'', Rating = 5\<rparr>))"
    by auto
  from nx next_rowid_fresh have sid: "sid = 1" by simp
  from all [rule_format, of "[Request (postReview ''Bob'' ''Ok'' 3), Restart, Request (deleteById 2), Request getReviews]"]
    keep sid next_rowid_fresh
  show ?thesis by blast
qed

section \<open>The id of the stored row and the id in the response\<close>

text \<open>
  What a successful create does: the statement it sends carries name, review and rating
  and no id (\<open>saveReview\<close> does not read the review's \<open>ID\<close> field), the store numbers
  the new row, and the response carries the incremented counter. The two numbers agree
  when the counter, before the create, equals the largest id the table has ever held.
\<close>

lemma create_stores_engine_assigned_id:
  "status (fst (handlePostReview (Some r) flt s)) = 200 \<Longrightarrow>
     saveReview flt (r\<lparr>ID := go_incr (idCounter s)\<rparr>) (db s) = saveReview flt r (db s)
   \<and> executed (db (snd (handlePostReview (Some r) flt s))) =
       executed (db s) @ [InsertReview (Name r) (Review r) (Rating r)]
   \<and> table (db (snd (handlePostReview (Some r) flt s))) =
       table (db s) @ [\<lparr>ID = high_water (db s) + 1, Name = Name r, Review = Review r, Rating = Rating r\<rparr>]
   \<and> assigned_id (fst (handlePostReview (Some r) flt s)) = Some (go_incr (idCounter s))
   \<and> (idCounter s = high_water (db s) \<longrightarrow> go_incr (idCounter s) = high_water (db s) + 1)"
proof -
  assume ok: "status (fst (handlePostReview (Some r) flt s)) = 200"
  from handlePostReview_200 [OF ok] obtain sid where
    nx: "next_rowid (db s) = Some sid" and
    t: "table (db (snd (handlePostReview (Some r) flt s))) =
      table (db s) @ [\<lparr>ID = sid, Name = Name r, Review = Review r, Rating = Rating r\<rparr>]" and
    a: "assigned_id (fst (handlePostReview (Some r) flt s)) = Some (go_incr (idCounter s))" and
    e: "executed (db (snd (handlePostReview (Some r) flt s))) =
      executed (db s) @ [InsertReview (Name r) (Review r) (Rating r)]"
    by blast
  from nx have sid: "sid = high_water (db s) + 1" and hw: "high_water (db s) < max_int64"
    by (simp_all add: next_rowid_def split: if_splits)
  show ?thesis
    using t a e sid hw by (simp add: saveReview_ignores_ID go_incr_in_range)
qed

text \<open>
  Claim C1 says that on every successful create the id stored for the new row equals
  the id returned in the response, the insert sending the id the application assigned.
  \<open>handlePostReview\<close> assigns \<open>newReview.ID = idCounter\<close> and hands the review to
  \<open>saveReview\<close>, whose statement leaves the id out. Evaluated on the first start of the
  service: after a create whose insert fails in the driver, the next create is answered
  with the id 2 and its row is stored under the id 1, so that no row of the table has
  the id of the response.
\<close>

theorem returned_id_not_stored:
  "\<exists>n. assigned_id (fst (serve (postReview ''Bob'' ''Ok'' 3)
            (snd (serve (postReview_failing ''Ann'' ''Great'' 5) fresh_server)))) = Some n
       \<and> n \<notin> ID ` set (table (db (snd (serve (postReview ''Bob'' ''Ok'' 3)
            (snd (serve (postReview_failing ''Ann'' ''Great'' 5) fresh_server))))))"
proof -
  have "assigned_id (fst (serve (postReview ''Bob'' ''Ok'' 3)
            (snd (serve (postReview_failing ''Ann'' ''Great'' 5) fresh_server)))) = Some 2"
    by code_simp
  moreover have "table (db (snd (serve (postReview ''Bob'' ''Ok'' 3)
            (snd (serve (postReview_failing ''Ann'' ''Great'' 5) fresh_server)))))
      = [\<lparr>ID = 1, Name = ''Bob'', Review = ''Ok'', Rating = 3\<rparr>]"
    by code_simp
  ultimately show ?thesis by simp
qed

section \<open>Deleting by the id of the response\<close>

text \<open>
  Claim C2 says that a delete with the id a create was answered with succeeds and
  removes that review, and that a delete with an id that was never assigned fails.
  Two runs from the first start of the service, evaluated.

  First run: a create whose insert fails, then Ann's create (answered with 2, stored
  under 1) and Bob's create (answered with 3, stored under 2). The delete with Ann's
  id 2 is answered with success and removes Bob's review; the list shows Ann's.

  Second run, without any fault: Ann's and Bob's creates (1 and 2), the delete of 2, a
  restart, Cy's create (answered with 2, stored under 3). The delete with Cy's id 2 is
  answered with 500, the list still shows Cy's review, and the delete with 3, an id no
  create was answered with, is answered with success.
\<close>

theorem delete_by_returned_id_misses:
  "fst (serve_all
      [postReview_failing ''Zed'' ''Meh'' 2, postReview ''Ann'' ''Great'' 5, postReview ''Bob'' ''Ok'' 3,
       deleteById 2, getReviews] fresh_server)
   = [\<lparr>status = 500, body = Text ''Failed to save review''\<rparr>,
      \<lparr>status = 200, body = Json (JObject [(''id'', JInt 2), (''success'', JBool True)])\<rparr>,
      \<lparr>status = 200, body = Json (JObject [(''id'', JInt 3), (''success'', JBool True)])\<rparr>,
      \<lparr>status = 200, body = Json (JObject [(''success'', JBool True)])\<rparr>,
      \<lparr>status = 200, body = Json (JArray [JObject [(''id'', JInt 1), (''name'', JString ''Ann''),
          (''review'', JString ''Great''), (''rating'', JInt 5)]])\<rparr>]
   \<and> fst (run
      [Request (postReview ''Ann'' ''Great'' 5), Request (postReview ''Bob'' ''Ok'' 3),
       Request (deleteById 2), Restart, Request (postReview ''Cy'' ''Bad'' 1),
       Request (deleteById 2), Request getReviews, Request (deleteById 3)] fresh_server)
   = [\<lparr>status = 200, body = Json (JObject [(''id'', JInt 1), (''success'', JBool True)])\<rparr>,
      \<lparr>status = 200, body = Json (JObject [(''id'', JInt 2), (''success'', JBool True)])\<rparr>,
      \<lparr>status = 200, body = Json (JObject [(''success'', JBool True)])\<rparr>,
      \<lparr>status = 200, body = Json (JObject [(''id'', JInt 2), (''success'', JBool True)])\<rparr>,
      \<lparr>status = 500, body = Json (JObject [(''error'',
          JString ''Failed to delete review: no review found with id 2'')])\<rparr>,
      \<lparr>status = 200, body = Json (JArray
         [JObject [(''id'', JInt 1), (''name'', JString ''Ann''),
            (''review'', JString ''Great''), (''rating'', JInt 5)],
          JObject [(''id'', JInt 3), (''name'', JString ''Cy''),
            (''review'', JString ''Bad''), (''rating'', JInt 1)]])\<rparr>,
      \<lparr>status = 200, body = Json (JObject [(''success'', JBool True)])\<rparr>]"
  by code_simp

end
